theory Spec2Isabelle
  imports Main "HOL-Library.AList"
begin

section \<open>The scan agent (agent/agent.py)\<close>

text \<open>
  A shallow embedding of \<^verbatim>\<open>agent/agent.py\<close>. Python exceptions are values of
  \<open>exn\<close>; a statement that may raise returns \<open>exn + 'a\<close> (\<open>Inl\<close> the
  exception) together with the world it leaves behind. The world holds what the agent
  reads and changes: the files, \<^verbatim>\<open>SCAN_PROCESS_DICT\<close>, the HTTP requests sent, the log,
  the processes spawned and the kill signals delivered. What the outside decides (the
  answer to an HTTP request, whether \<^verbatim>\<open>Popen\<close> succeeds, the exit code of a child) is an
  input, the record \<open>environment\<close>.

  Scope of the model. Strings are lists of 8-bit characters and stand for Python strings
  of code points below 256; file contents are taken to be ASCII, so that a file's size in
  bytes is the length of its text. A path names a file by its spelling (no symbolic
  links, no \<^verbatim>\<open>.\<close> or \<^verbatim>\<open>..\<close>). A directory listing shows regular files only. The
  values of a job's fields are JSON null, integers and strings. The configuration is a
  record with the keys the agent reads, and the text of a job list parses to a list of
  job dictionaries; a configuration that lacks a key is outside the model. One worker
  runs at a time; \<^verbatim>\<open>KeyboardInterrupt\<close> and \<^verbatim>\<open>time.sleep\<close> are not modelled.
\<close>

subsection \<open>Python values and exceptions\<close>

datatype exn =
  KeyError | IndexError | TypeError | UnboundLocalError | OSError | ShutilError | URLError
  | JSONDecodeError | SystemExit int

text \<open>\<^verbatim>\<open>except Exception\<close> takes every exception but \<^verbatim>\<open>SystemExit\<close>.\<close>

fun is_Exception :: "exn \<Rightarrow> bool" where
  "is_Exception (SystemExit n) = False"
| "is_Exception e = True"

datatype jval = JNull | JInt int | JStr string

definition digit :: "nat \<Rightarrow> char" where
  "digit n = ''0123456789'' ! (n mod 10)"

function str_of_nat :: "nat \<Rightarrow> string" where
  "str_of_nat n = (if n < 10 then [digit n] else str_of_nat (n div 10) @ [digit n])"
  by pat_completeness auto
termination
  by (relation "measure id") auto

declare str_of_nat.simps [simp del]

definition str_of_int :: "int \<Rightarrow> string" where
  "str_of_int i = (if i < 0 then ''-'' @ str_of_nat (nat (- i)) else str_of_nat (nat i))"

text \<open>\<^verbatim>\<open>f"{v}"\<close>: the text of a value inside an f-string.\<close>

fun py_str :: "jval \<Rightarrow> string" where
  "py_str JNull = ''None''"
| "py_str (JInt i) = str_of_int i"
| "py_str (JStr s) = s"

text \<open>\<^verbatim>\<open>if v:\<close> on a value.\<close>

fun truthy :: "jval \<Rightarrow> bool" where
  "truthy JNull = False"
| "truthy (JInt i) = (i \<noteq> 0)"
| "truthy (JStr s) = (s \<noteq> [])"

text \<open>\<^verbatim>\<open>d[k]\<close> on a dictionary.\<close>

definition getitem :: "('k \<rightharpoonup> 'v) \<Rightarrow> 'k \<Rightarrow> exn + 'v" where
  "getitem d k = (case d k of None \<Rightarrow> Inl KeyError | Some v \<Rightarrow> Inr v)"

subsection \<open>Python string methods\<close>

text \<open>\<^verbatim>\<open>str.isspace\<close> on one character (code points below 256).\<close>

definition is_space :: "char \<Rightarrow> bool" where
  "is_space c = (let n = (of_char c :: nat) in
     (9 \<le> n \<and> n \<le> 13) \<or> (28 \<le> n \<and> n \<le> 32) \<or> n = 133 \<or> n = 160)"

definition strip :: "string \<Rightarrow> string" where
  "strip s = rev (dropWhile is_space (rev (dropWhile is_space s)))"

definition startswith :: "string \<Rightarrow> string \<Rightarrow> bool" where
  "startswith s p = (take (length p) s = p)"

text \<open>\<^verbatim>\<open>s.split()\<close>: the words between runs of whitespace.\<close>

fun words_from :: "string \<Rightarrow> string \<Rightarrow> string list" where
  "words_from cur [] = (if cur = [] then [] else [cur])"
| "words_from cur (c # cs) =
     (if is_space c then (if cur = [] then words_from [] cs else cur # words_from [] cs)
      else words_from (cur @ [c]) cs)"

definition split_ws :: "string \<Rightarrow> string list" where
  "split_ws s = words_from [] s"

text \<open>
  \<^verbatim>\<open>s.split(sep)\<close> for a separator that is not empty: the pieces between the
  occurrences of \<open>sep\<close>, found from the left. The second argument of \<open>split_from\<close>
  counts the characters of a separator still to be skipped.
\<close>

fun split_from :: "string \<Rightarrow> nat \<Rightarrow> string \<Rightarrow> string list" where
  "split_from sep k [] = [[]]"
| "split_from sep (Suc k) (c # cs) = split_from sep k cs"
| "split_from sep 0 (c # cs) =
     (if startswith (c # cs) sep then [] # split_from sep (length sep - 1) cs
      else (case split_from sep 0 cs of
              [] \<Rightarrow> [[c]]
            | p # ps \<Rightarrow> (c # p) # ps))"

definition split_sep :: "string \<Rightarrow> string \<Rightarrow> string list" where
  "split_sep s sep = split_from sep 0 s"

text \<open>\<^verbatim>\<open>xs[1]\<close>.\<close>

fun second :: "'a list \<Rightarrow> exn + 'a" where
  "second (x # y # ys) = Inr y"
| "second xs = Inl IndexError"

text \<open>\<^verbatim>\<open>xs[0]\<close>.\<close>

fun first :: "'a list \<Rightarrow> exn + 'a" where
  "first (x # xs) = Inr x"
| "first [] = Inl IndexError"

text \<open>\<^verbatim>\<open>fh.readlines()\<close>: the lines of a text, each with its line end.\<close>

fun lines_from :: "string \<Rightarrow> string \<Rightarrow> string list" where
  "lines_from cur [] = (if cur = [] then [] else [cur])"
| "lines_from cur (c # cs) =
     (if c = CHR 0x0A then (cur @ [c]) # lines_from [] cs else lines_from (cur @ [c]) cs)"

definition readlines :: "string \<Rightarrow> string list" where
  "readlines s = lines_from [] s"

text \<open>Reading in text mode turns \<^verbatim>\<open>\r\n\<close> and \<^verbatim>\<open>\r\<close> into \<^verbatim>\<open>\n\<close>.\<close>

fun universal_newlines :: "string \<Rightarrow> string" where
  "universal_newlines [] = []"
| "universal_newlines [c] = [if c = CHR 0x0D then CHR 0x0A else c]"
| "universal_newlines (c # d # cs) =
     (if c = CHR 0x0D \<and> d = CHR 0x0A then CHR 0x0A # universal_newlines cs
      else if c = CHR 0x0D then CHR 0x0A # universal_newlines (d # cs)
      else c # universal_newlines (d # cs))"

subsection \<open>Paths (posixpath)\<close>

text \<open>\<^verbatim>\<open>os.path.join(a, b)\<close>.\<close>

definition os_path_join :: "string \<Rightarrow> string \<Rightarrow> string" where
  "os_path_join a b =
     (if startswith b ''/'' then b
      else if a = [] \<or> last a = CHR ''/'' then a @ b
      else a @ ''/'' @ b)"

text \<open>
  \<^verbatim>\<open>os.path.join(a, v)\<close> on a value that is passed as it is: a value that is no
  string raises \<^verbatim>\<open>TypeError\<close>.
\<close>

definition os_path_join_value :: "string \<Rightarrow> jval \<Rightarrow> exn + string" where
  "os_path_join_value a v = (case v of JStr b \<Rightarrow> Inr (os_path_join a b) | _ \<Rightarrow> Inl TypeError)"

text \<open>The part of a path after its last slash, and the part up to and including it.\<close>

definition name_part :: "string \<Rightarrow> string" where
  "name_part p = rev (takeWhile (\<lambda>c. c \<noteq> CHR ''/'') (rev p))"

definition dir_part :: "string \<Rightarrow> string" where
  "dir_part p = rev (dropWhile (\<lambda>c. c \<noteq> CHR ''/'') (rev p))"

text \<open>A directory's path as the prefix of the paths of its entries.\<close>

definition dir_prefix :: "string \<Rightarrow> string" where
  "dir_prefix d = (if d = [] \<or> last d = CHR ''/'' then d else d @ ''/'')"

subsection \<open>Exceptions and state\<close>

text \<open>
  A statement runs in a state and leaves a state, with a value or with an exception.
  \<open>bind\<close> is sequencing, \<open>catch\<close> is \<^verbatim>\<open>try: ... except ...:\<close> (the handler
  decides which exceptions it takes and re-raises the others).
\<close>

type_synonym ('a, 's) prog = "'s \<Rightarrow> (exn + 'a) \<times> 's"

definition ret :: "'a \<Rightarrow> ('a, 's) prog" where
  "ret a s = (Inr a, s)"

definition raise :: "exn \<Rightarrow> ('a, 's) prog" where
  "raise e s = (Inl e, s)"

definition lift :: "exn + 'a \<Rightarrow> ('a, 's) prog" where
  "lift r s = (r, s)"

definition bind :: "('a, 's) prog \<Rightarrow> ('a \<Rightarrow> ('b, 's) prog) \<Rightarrow> ('b, 's) prog" where
  "bind m f s = (case m s of (Inl e, s') \<Rightarrow> (Inl e, s') | (Inr a, s') \<Rightarrow> f a s')"

definition catch :: "('a, 's) prog \<Rightarrow> (exn \<Rightarrow> ('a, 's) prog) \<Rightarrow> ('a, 's) prog" where
  "catch m h s = (case m s of (Inl e, s') \<Rightarrow> h e s' | (Inr a, s') \<Rightarrow> (Inr a, s'))"

subsection \<open>fnmatch\<close>

text \<open>
  \<^verbatim>\<open>fnmatch.fnmatch(name, pat)\<close> of the standard library, after its documentation:
  \<^verbatim>\<open>*\<close> matches everything, \<^verbatim>\<open>?\<close> any single character, \<^verbatim>\<open>[seq]\<close> any character in
  \<open>seq\<close>, \<^verbatim>\<open>[!seq]\<close> any character not in \<open>seq\<close>; a \<^verbatim>\<open>[\<close> that no \<^verbatim>\<open>]\<close> closes is
  an ordinary character, and a \<^verbatim>\<open>]\<close> right after \<^verbatim>\<open>[\<close> or \<^verbatim>\<open>[!\<close> belongs to the
  class. On POSIX \<^verbatim>\<open>os.path.normcase\<close> changes nothing. The versions of the
  library differ on a range whose bounds are in the wrong order; here it holds no
  character.
\<close>

datatype glob_token = Star | AnyChar | Lit char | CharClass bool string

text \<open>The text of a class, up to its closing bracket; \<open>None\<close> when nothing closes it.\<close>

definition class_end :: "string \<Rightarrow> string option" where
  "class_end r =
     (let a = (if startswith r ''!'' then ''!'' else []);
          r1 = drop (length a) r;
          b = (if startswith r1 '']'' then '']'' else []);
          r2 = drop (length b) r1;
          body = takeWhile (\<lambda>c. c \<noteq> CHR '']'') r2
      in if dropWhile (\<lambda>c. c \<noteq> CHR '']'') r2 = [] then None else Some (a @ b @ body))"

definition class_token :: "string \<Rightarrow> glob_token" where
  "class_token stuff =
     (if startswith stuff ''!'' then CharClass True (tl stuff) else CharClass False stuff)"

text \<open>
  The tokens of a pattern. The first argument counts the characters still to be skipped:
  those of a class just read, with its closing bracket.
\<close>

fun parse_from :: "nat \<Rightarrow> string \<Rightarrow> glob_token list" where
  "parse_from k [] = []"
| "parse_from (Suc k) (c # r) = parse_from k r"
| "parse_from 0 (c # r) =
     (if c = CHR ''*'' then Star # parse_from 0 r
      else if c = CHR ''?'' then AnyChar # parse_from 0 r
      else if c = CHR ''['' then
        (case class_end r of
           None \<Rightarrow> Lit c # parse_from 0 r
         | Some stuff \<Rightarrow> class_token stuff # parse_from (Suc (length stuff)) r)
      else Lit c # parse_from 0 r)"

definition parse_pattern :: "string \<Rightarrow> glob_token list" where
  "parse_pattern pat = parse_from 0 pat"

text \<open>Membership in the text of a class: \<open>lo-hi\<close> is a range, any other character itself.\<close>

fun in_class :: "string \<Rightarrow> char \<Rightarrow> bool" where
  "in_class (lo # d # hi # rest) c =
     (if d = CHR ''-'' then
        ((of_char lo :: nat) \<le> of_char c \<and> (of_char c :: nat) \<le> of_char hi) \<or> in_class rest c
      else lo = c \<or> in_class (d # hi # rest) c)"
| "in_class (x # rest) c = (x = c \<or> in_class rest c)"
| "in_class [] c = False"

fun token_matches :: "glob_token \<Rightarrow> char \<Rightarrow> bool" where
  "token_matches AnyChar c = True"
| "token_matches (Lit x) c = (x = c)"
| "token_matches (CharClass neg body) c = (in_class body c \<noteq> neg)"
| "token_matches Star c = True"

fun glob_match :: "glob_token list \<Rightarrow> string \<Rightarrow> bool" where
  "glob_match [] s = (s = [])"
| "glob_match (Star # ps) [] = glob_match ps []"
| "glob_match (Star # ps) (c # cs) = (glob_match ps (c # cs) \<or> glob_match (Star # ps) cs)"
| "glob_match (p # ps) [] = False"
| "glob_match (p # ps) (c # cs) = (token_matches p c \<and> glob_match ps cs)"

definition fnmatch :: "string \<Rightarrow> string \<Rightarrow> bool" where
  "fnmatch name pat = glob_match (parse_pattern pat) name"

subsection \<open>Files\<close>

text \<open>
  The regular files by path, and the directories that exist. A path with no slash is
  in the working directory, which always exists.
\<close>

record filesystem =
  files :: "(string \<times> string) list"
  dirs :: "string list"

definition isfile :: "filesystem \<Rightarrow> string \<Rightarrow> bool" where
  "isfile fs p = (map_of (files fs) p \<noteq> None)"

definition isdir :: "filesystem \<Rightarrow> string \<Rightarrow> bool" where
  "isdir fs p = (p \<noteq> [] \<and> dir_prefix p \<in> set (map dir_prefix (dirs fs)))"

definition getsize :: "filesystem \<Rightarrow> string \<Rightarrow> exn + nat" where
  "getsize fs p = (case map_of (files fs) p of None \<Rightarrow> Inl OSError | Some c \<Rightarrow> Inr (length c))"

text \<open>\<^verbatim>\<open>open(p, "r")\<close> and \<^verbatim>\<open>fh.read()\<close>.\<close>

definition read_text :: "filesystem \<Rightarrow> string \<Rightarrow> exn + string" where
  "read_text fs p =
     (case map_of (files fs) p of None \<Rightarrow> Inl OSError | Some c \<Rightarrow> Inr (universal_newlines c))"

text \<open>A file can be created or replaced at \<open>p\<close>: its directory exists and \<open>p\<close> is no directory.\<close>

definition can_create :: "filesystem \<Rightarrow> string \<Rightarrow> bool" where
  "can_create fs p =
     (name_part p \<noteq> [] \<and>
      (dir_part p = [] \<or> dir_part p \<in> set (map dir_prefix (dirs fs))) \<and>
      \<not> isdir fs p)"

text \<open>\<^verbatim>\<open>with open(p, "w") as fh: fh.write(s)\<close>.\<close>

definition write_text :: "string \<Rightarrow> string \<Rightarrow> (unit, filesystem) prog" where
  "write_text p s fs =
     (if can_create fs p then (Inr (), fs\<lparr>files := AList.update p s (files fs)\<rparr>)
      else (Inl OSError, fs))"

text \<open>\<^verbatim>\<open>os.listdir(d)\<close>.\<close>

definition listdir :: "filesystem \<Rightarrow> string \<Rightarrow> exn + string list" where
  "listdir fs d =
     (if isdir fs d then
        Inr (remdups (map name_part
               (filter (\<lambda>p. dir_part p = dir_prefix d \<and> name_part p \<noteq> []) (map fst (files fs)))))
      else Inl OSError)"

text \<open>\<^verbatim>\<open>os.rename(src, dst)\<close> on a regular file: a file at \<open>dst\<close> is replaced.\<close>

definition rename :: "string \<Rightarrow> string \<Rightarrow> (unit, filesystem) prog" where
  "rename src dst fs =
     (case map_of (files fs) src of
        None \<Rightarrow> (Inl OSError, fs)
      | Some c \<Rightarrow>
          if can_create fs dst
          then (Inr (), fs\<lparr>files := AList.update dst c (AList.delete src (files fs))\<rparr>)
          else (Inl OSError, fs))"

text \<open>
  \<^verbatim>\<open>shutil.move(src, dst)\<close>: into \<open>dst\<close> when \<open>dst\<close> is a directory (an error when the
  name is taken there), a rename otherwise.
\<close>

definition shutil_move :: "string \<Rightarrow> string \<Rightarrow> (unit, filesystem) prog" where
  "shutil_move src dst fs =
     (if isdir fs dst then
        (let real_dst = os_path_join dst (name_part src)
         in if isfile fs real_dst \<or> isdir fs real_dst then (Inl ShutilError, fs)
            else rename src real_dst fs)
      else rename src dst fs)"

subsection \<open>move_wildcard_files\<close>

fun move_each :: "string \<Rightarrow> string \<Rightarrow> string \<Rightarrow> string list \<Rightarrow> (unit, filesystem) prog" where
  "move_each wildcard_filename source_directory destination_directory [] = ret ()"
| "move_each wildcard_filename source_directory destination_directory (file_name # file_list) =
     (if fnmatch file_name wildcard_filename then
        bind (shutil_move (os_path_join source_directory file_name)
                          (os_path_join destination_directory file_name))
             (\<lambda>_. move_each wildcard_filename source_directory destination_directory file_list)
      else move_each wildcard_filename source_directory destination_directory file_list)"

definition move_wildcard_files :: "string \<Rightarrow> string \<Rightarrow> string \<Rightarrow> (unit, filesystem) prog" where
  "move_wildcard_files wildcard_filename source_directory destination_directory fs =
     bind (lift (listdir fs source_directory))
          (move_each wildcard_filename source_directory destination_directory) fs"

subsection \<open>The world of the agent\<close>

datatype level = Info | Error | Critical

text \<open>A \<^verbatim>\<open>subprocess.Popen\<close> object.\<close>

record process =
  pid :: int
  args :: "string list"

text \<open>A scan job is the dictionary the control plane sent.\<close>

type_synonym job = "string \<rightharpoonup> jval"

text \<open>
  An HTTP request as the agent builds it. \<open>body\<close> is the dictionary that
  \<^verbatim>\<open>json.dumps\<close> serialises, \<open>None\<close> for a GET.
\<close>

record http_request =
  http_method :: string
  url :: string
  headers :: "(string \<times> string) list"
  body :: "(string \<times> jval) list option"

text \<open>
  What \<^verbatim>\<open>urllib.request.urlopen\<close> does with a request: it raises (no connection, or
  a status that urllib turns into \<^verbatim>\<open>HTTPError\<close>), or it returns a response with a
  status and a text.
\<close>

datatype http_outcome = Raised | Response int string

text \<open>
  The configuration loaded at startup, with the keys of \<^verbatim>\<open>agent_config.json\<close> that the
  agent reads.
\<close>

record config =
  master_address :: string
  master_port :: int
  scan_agent :: string
  api_token :: string
  http_useragent :: string
  scan_results_dir :: string
  target_files_dir :: string
  supported_scan_binaries :: "string list"
  callback_interval_in_seconds :: int

text \<open>
  What the outside decides. \<open>urlopen k r\<close> is the outcome of request \<open>r\<close> when \<open>k\<close>
  requests were sent before it. \<open>json_loads_jobs\<close> and \<open>json_loads_config\<close> are
  \<^verbatim>\<open>json.loads\<close> on the text of a job list and of a configuration, \<open>None\<close> when it
  raises. \<open>popen argv\<close> is the process ID of the child, \<open>None\<close> when
  \<^verbatim>\<open>subprocess.Popen\<close> raises. \<open>child_exit\<close> gives the files as the child leaves them
  and its return code, \<open>child_killed\<close> the files as a killed child leaves them, and
  \<open>now\<close> is the clock of \<^verbatim>\<open>get_current_time\<close>.
\<close>

record environment =
  urlopen :: "nat \<Rightarrow> http_request \<Rightarrow> http_outcome"
  json_loads_jobs :: "string \<Rightarrow> job list option"
  json_loads_config :: "string \<Rightarrow> config option"
  popen :: "string list \<Rightarrow> int option"
  child_exit :: "filesystem \<Rightarrow> filesystem \<times> int"
  child_killed :: "filesystem \<Rightarrow> filesystem"
  now :: string

record world =
  fs :: filesystem
  scan_process_dict :: "int \<rightharpoonup> process"
  requests :: "http_request list"
  logged :: "(level \<times> string) list"
  spawned :: "string list list"
  killed :: "int list"
  queue :: "job list"

text \<open>
  A call of \<^verbatim>\<open>ROOT_LOGGER\<close>: the level and the text of the message as the source
  writes it, its fields not filled in.
\<close>

definition log :: "level \<Rightarrow> string \<Rightarrow> (unit, world) prog" where
  "log lvl msg w = (Inr (), w\<lparr>logged := logged w @ [(lvl, msg)]\<rparr>)"

definition on_fs :: "('a, filesystem) prog \<Rightarrow> ('a, world) prog" where
  "on_fs m w = (case m (fs w) of (r, f) \<Rightarrow> (r, w\<lparr>fs := f\<rparr>))"

text \<open>Sending a request: it is recorded, and the outside answers.\<close>

definition send :: "environment \<Rightarrow> http_request \<Rightarrow> (int \<times> string, world) prog" where
  "send env r w =
     (case urlopen env (length (requests w)) r of
        Raised \<Rightarrow> (Inl URLError, w\<lparr>requests := requests w @ [r]\<rparr>)
      | Response code text \<Rightarrow> (Inr (code, text), w\<lparr>requests := requests w @ [r]\<rparr>))"

text \<open>\<^verbatim>\<open>SCAN_PROCESS_DICT[key]\<close> and \<^verbatim>\<open>SCAN_PROCESS_DICT.pop(key)\<close>; the keys are process IDs.\<close>

definition get_process :: "jval \<Rightarrow> (process, world) prog" where
  "get_process key w =
     (case key of
        JInt n \<Rightarrow> (getitem (scan_process_dict w) n, w)
      | _ \<Rightarrow> (Inl KeyError, w))"

definition pop_process :: "jval \<Rightarrow> (process, world) prog" where
  "pop_process key w =
     (case key of
        JInt n \<Rightarrow>
          (case scan_process_dict w n of
             None \<Rightarrow> (Inl KeyError, w)
           | Some p \<Rightarrow> (Inr p, w\<lparr>scan_process_dict := (scan_process_dict w)(n := None)\<rparr>))
      | _ \<Rightarrow> (Inl KeyError, w))"

definition set_process :: "int \<Rightarrow> process \<Rightarrow> (unit, world) prog" where
  "set_process n p w = (Inr (), w\<lparr>scan_process_dict := (scan_process_dict w)(n \<mapsto> p)\<rparr>)"

text \<open>\<^verbatim>\<open>subprocess.Popen(argv)\<close>.\<close>

definition popen_process :: "environment \<Rightarrow> string list \<Rightarrow> (process, world) prog" where
  "popen_process env argv w =
     (case popen env argv of
        None \<Rightarrow> (Inl OSError, w)
      | Some n \<Rightarrow> (Inr \<lparr>pid = n, args = argv\<rparr>, w\<lparr>spawned := spawned w @ [argv]\<rparr>))"

text \<open>\<^verbatim>\<open>process.wait()\<close>, giving \<^verbatim>\<open>process.returncode\<close>.\<close>

definition wait_process :: "environment \<Rightarrow> (int, world) prog" where
  "wait_process env w = (case child_exit env (fs w) of (f, rc) \<Rightarrow> (Inr rc, w\<lparr>fs := f\<rparr>))"

text \<open>
  \<^verbatim>\<open>process.kill()\<close> and \<^verbatim>\<open>process.communicate()\<close>. The children are started with
  no pipes, so \<^verbatim>\<open>stdout\<close> and \<^verbatim>\<open>stderr\<close> are \<^verbatim>\<open>None\<close>.
\<close>

definition kill_process :: "environment \<Rightarrow> process \<Rightarrow> (unit, world) prog" where
  "kill_process env p w =
     (Inr (), w\<lparr>killed := killed w @ [pid p], fs := child_killed env (fs w)\<rparr>)"

subsection \<open>build_masscan_command\<close>

definition build_masscan_command ::
  "jval \<Rightarrow> string \<Rightarrow> string option \<Rightarrow> string \<Rightarrow> string \<Rightarrow> string" where
  "build_masscan_command scan_command target_file excluded_target_file json_file http_useragent' =
     (let file_options =
            ''-iL '' @ target_file @ '' -oJ '' @ json_file @ '' --http-user-agent '' @ http_useragent';
          file_options =
            (case excluded_target_file of
               None \<Rightarrow> file_options
             | Some f \<Rightarrow> if f \<noteq> [] then file_options @ '' --excludefile '' @ f else file_options)
      in ''masscan '' @ py_str scan_command @ '' '' @ file_options)"

subsection \<open>check_for_scan_jobs\<close>

text \<open>The request for new scan jobs (lines 73 to 89).\<close>

definition scheduled_scans_request :: "config \<Rightarrow> http_request" where
  "scheduled_scans_request cfg =
     \<lparr>http_method = ''GET'',
      url = master_address cfg @ '':'' @ str_of_int (master_port cfg) @ ''/api/scheduled_scans'',
      headers = [(''user-agent'', scan_agent cfg),
                 (''Authorization'', ''Token '' @ api_token cfg)],
      body = None\<rparr>"

definition check_for_scan_jobs :: "environment \<Rightarrow> config \<Rightarrow> (job list option, world) prog" where
  "check_for_scan_jobs env cfg =
     bind (log Info ''check_for_scans URL: {url}'') (\<lambda>_.
     catch
       (bind (send env (scheduled_scans_request cfg))
          (\<lambda>(response_code, response_data).
             if response_code = 200 then
               (case json_loads_jobs env response_data of
                  None \<Rightarrow> raise JSONDecodeError
                | Some json_data \<Rightarrow> ret (Some json_data))
             else
               bind (log Error
                 ''Could not access {master_address}:{master_port}. HTTP status code: {response_code}'')
                 (\<lambda>_.
               bind (log Error ''Response content: {response_data}'') (\<lambda>_.
               ret None))))
       (\<lambda>e. if is_Exception e then
               bind (log Error ''check_for_scan_jobs() function exception: {e}'') (\<lambda>_. ret None)
             else raise e))"

subsection \<open>update_scan_information\<close>

text \<open>The request that updates a scan job (lines 112 to 133).\<close>

definition patch_request :: "config \<Rightarrow> jval \<Rightarrow> (string \<times> jval) list \<Rightarrow> http_request" where
  "patch_request cfg scan_job_id update_info =
     \<lparr>http_method = ''PATCH'',
      url = master_address cfg @ '':'' @ str_of_int (master_port cfg)
              @ ''/api/scheduled_scans/'' @ py_str scan_job_id,
      headers = [(''user-agent'', scan_agent cfg),
                 (''Authorization'', ''Token '' @ api_token cfg),
                 (''Content-Type'', ''application/json'')],
      body = Some update_info\<rparr>"

definition update_scan_information ::
  "environment \<Rightarrow> config \<Rightarrow> job \<Rightarrow> (string \<times> jval) list \<Rightarrow> (bool, world) prog" where
  "update_scan_information env cfg scan_job update_info =
     bind (lift (getitem scan_job ''id'')) (\<lambda>scan_job_id.
     bind (log Info ''update_scan_information URL: {url}'') (\<lambda>_.
     bind (send env (patch_request cfg scan_job_id update_info))
       (\<lambda>(response_code, response_data).
          if response_code = 200 then
            bind (log Info
              ''Successfully updated scan information for scan ID {scan_job_id} with data {update_info}'')
              (\<lambda>_. ret True)
          else
            bind (log Error
              (''Could not access {master_address}:{master_port} or failed to update scan ID {scan_job_id}. ''
               @ ''HTTP status code: {response_code}'')) (\<lambda>_.
            bind (log Error ''Response content: {response_data}'') (\<lambda>_.
            ret False)))))"

subsection \<open>scan_site\<close>

text \<open>
  The loop over the lines of \<^verbatim>\<open>paused.conf\<close> (lines 267 to 270): the value of the
  last line that starts with \<^verbatim>\<open>output-filename\<close>, \<^verbatim>\<open>line.split(" = ")[1].strip()\<close>.
\<close>

fun paused_output_filename :: "string option \<Rightarrow> string list \<Rightarrow> exn + string option" where
  "paused_output_filename paused_file_output_filename [] = Inr paused_file_output_filename"
| "paused_output_filename paused_file_output_filename (line # paused_file_lines) =
     (if startswith line ''output-filename'' then
        (case second (split_sep line '' = '') of
           Inl e \<Rightarrow> Inl e
         | Inr v \<Rightarrow> paused_output_filename (Some (strip v)) paused_file_lines)
      else paused_output_filename paused_file_output_filename paused_file_lines)"

text \<open>The command of a masscan job (lines 249 to 297).\<close>

definition masscan_command ::
  "jval \<Rightarrow> string \<Rightarrow> string option \<Rightarrow> string \<Rightarrow> string \<Rightarrow> (string, world) prog" where
  "masscan_command scan_command target_file excluded_target_file json_file useragent w =
     (if isfile (fs w) ''paused.conf'' then
        bind (lift (read_text (fs w) ''paused.conf'')) (\<lambda>paused_file.
        let paused_file_lines = readlines paused_file in
        bind (log Info ''Previous paused.conf scan file found: {paused_file}'') (\<lambda>_.
        bind (lift (paused_output_filename None paused_file_lines)) (\<lambda>paused_file_output_filename.
        bind (log Info ''Checking if the output-filename is the same.'') (\<lambda>_.
        if paused_file_output_filename = Some json_file then
          bind (log Info
            (''paused.conf file's output-filename '{paused_file_output_filename}' matches this scan request ''
             @ ''output filename '{json_file}'' @ [CHR 0x27])) (\<lambda>_.
          ret ''masscan --resume paused.conf'')
        else
          bind (log Info
            (''paused.conf file's output-filename '{paused_file_output_filename}' does not match this scan ''
             @ ''request output filename '{json_file}'.  Starting a new masscan scan.'')) (\<lambda>_.
          ret (build_masscan_command scan_command target_file excluded_target_file json_file
                 useragent)))))) w
      else
        ret (build_masscan_command scan_command target_file excluded_target_file json_file
               useragent) w)"

text \<open>
  The command of an nmap job (lines 302 to 318). Line 302 formats the stem into the name
  of the \<^verbatim>\<open>.gnmap\<close> file; line 312 passes the stem itself to \<^verbatim>\<open>os.path.join\<close>.
\<close>

definition nmap_command ::
  "jval \<Rightarrow> string \<Rightarrow> string option \<Rightarrow> string \<Rightarrow> jval \<Rightarrow> string \<Rightarrow> (string, world) prog" where
  "nmap_command scan_command target_file excluded_target_file pending_files_dir
       result_file_base_name useragent w =
     (let gnmap_file = os_path_join pending_files_dir (py_str result_file_base_name @ ''.gnmap'');
          fresh =
            bind (lift (os_path_join_value pending_files_dir result_file_base_name)) (\<lambda>nmap_results.
            let file_options = ''-iL '' @ target_file @ '' -oA '' @ nmap_results
                                 @ '' --script-args http.useragent='' @ [CHR 0x27] @ useragent
                                 @ [CHR 0x27];
                file_options =
                  (case excluded_target_file of
                     None \<Rightarrow> file_options
                   | Some f \<Rightarrow>
                       if f \<noteq> [] then file_options @ '' --excludefile '' @ f else file_options)
            in ret (''nmap '' @ py_str scan_command @ '' '' @ file_options))
      in if isfile (fs w) gnmap_file then
           bind (lift (getsize (fs w) gnmap_file)) (\<lambda>size.
             if 0 < size then
               bind (log Info ''Previous scan file found '{gnmap_file}'.  Resuming the scan.'') (\<lambda>_.
               ret (''nmap --resume '' @ gnmap_file))
             else fresh) w
         else fresh w)"

text \<open>
  The body of the inner \<^verbatim>\<open>try\<close> of a pause or cancel request (lines 190 to 217). Its
  value is \<^verbatim>\<open>updated_scan_status\<close>, \<open>None\<close> while the variable is not bound.
\<close>

definition kill_scan ::
  "environment \<Rightarrow> config \<Rightarrow> jval \<Rightarrow> jval \<Rightarrow> jval \<Rightarrow> string \<Rightarrow> string
     \<Rightarrow> (string option, world) prog" where
  "kill_scan env cfg scan_status scan_binary_process_id result_file_base_name
       pending_files_dir cancelled_files_dir =
     bind (get_process scan_binary_process_id) (\<lambda>process.
     bind (lift (first (args process))) (\<lambda>argv0.
       if argv0 \<in> set (supported_scan_binaries cfg) then
         bind (kill_process env process) (\<lambda>_.
         bind (log Info ''Killed process ID {scan_binary_process_id}.  Command: {' '.join(process.args)}'')
           (\<lambda>_.
         bind (pop_process scan_binary_process_id) (\<lambda>_.
         if scan_status = JStr ''cancel'' then
           bind (on_fs (move_wildcard_files (py_str result_file_base_name @ ''*'')
                          pending_files_dir cancelled_files_dir)) (\<lambda>_.
           ret (Some ''cancelled''))
         else if scan_status = JStr ''pause'' then ret (Some ''paused'')
         else ret None)))
       else ret None))"

text \<open>A request to pause or cancel a scan (lines 183 to 228).\<close>

definition control_request ::
  "environment \<Rightarrow> config \<Rightarrow> job \<Rightarrow> jval \<Rightarrow> jval \<Rightarrow> string \<Rightarrow> string \<Rightarrow> (unit, world) prog" where
  "control_request env cfg scan_job scan_status result_file_base_name
       pending_files_dir cancelled_files_dir =
     bind (log Info ''Received request to {scan_status} scan_job: {scan_job}'') (\<lambda>_.
     bind (lift (getitem scan_job ''scan_binary_process_id'')) (\<lambda>scan_binary_process_id.
     bind (catch
             (kill_scan env cfg scan_status scan_binary_process_id result_file_base_name
                pending_files_dir cancelled_files_dir)
             (\<lambda>e. if e = KeyError then
                     bind (log Error ''Process ID {scan_binary_process_id} is not running.'') (\<lambda>_.
                     ret None)
                   else raise e)) (\<lambda>updated_scan_status.
     case updated_scan_status of
       None \<Rightarrow> raise UnboundLocalError
     | Some status \<Rightarrow>
         bind (update_scan_information env cfg scan_job [(''scan_status'', JStr status)]) (\<lambda>_.
         ret ()))))"

text \<open>Spawning and supervising the scan (lines 325 to 364).\<close>

definition supervise ::
  "environment \<Rightarrow> config \<Rightarrow> job \<Rightarrow> string \<Rightarrow> jval \<Rightarrow> string \<Rightarrow> string \<Rightarrow> (unit, world) prog" where
  "supervise env cfg scan_job command result_file_base_name
       pending_files_dir completed_files_dir =
     bind (popen_process env (split_ws command)) (\<lambda>process.
     let scan_binary_process_id = pid process in
     bind (set_process scan_binary_process_id process) (\<lambda>_.
     bind (log Info
       ''Starting scan for site '{site_name}', with process ID {scan_binary_process_id}, and command: {command}'')
       (\<lambda>_.
     bind (update_scan_information env cfg scan_job
             [(''scan_status'', JStr ''started''),
              (''scan_binary_process_id'', JInt scan_binary_process_id)]) (\<lambda>_.
     bind (wait_process env) (\<lambda>returncode.
       if returncode = 0 then
         bind (on_fs (move_wildcard_files (py_str result_file_base_name @ ''*'')
                        pending_files_dir completed_files_dir)) (\<lambda>_.
         bind (update_scan_information env cfg scan_job
                 [(''completed_time'', JStr (now env)),
                  (''scan_status'', JStr ''completed''),
                  (''result_file_base_name'', result_file_base_name)]) (\<lambda>_.
         bind (pop_process (JInt scan_binary_process_id)) (\<lambda>_.
         ret ())))
       else ret ())))))"

text \<open>Writing the targets and choosing the command (lines 234 to 322).\<close>

definition start_scan ::
  "environment \<Rightarrow> config \<Rightarrow> job \<Rightarrow> jval \<Rightarrow> jval \<Rightarrow> jval \<Rightarrow> string \<Rightarrow> string \<Rightarrow> string
     \<Rightarrow> (unit, world) prog" where
  "start_scan env cfg scan_job scan_binary scan_command result_file_base_name target_file
       pending_files_dir completed_files_dir =
     bind (lift (getitem scan_job ''targets'')) (\<lambda>targets.
     bind (on_fs (write_text target_file (py_str targets))) (\<lambda>_.
     bind (lift (getitem scan_job ''excluded_targets'')) (\<lambda>excluded_targets.
     bind (if truthy excluded_targets then
             (let excluded_target_file =
                    os_path_join (target_files_dir cfg)
                      (py_str result_file_base_name @ ''.excluded_targets'')
              in bind (on_fs (write_text excluded_target_file (py_str excluded_targets))) (\<lambda>_.
                 ret (Some excluded_target_file)))
           else ret None) (\<lambda>excluded_target_file.
     bind (if scan_binary = JStr ''masscan'' then
             (let json_file = os_path_join pending_files_dir
                                (py_str result_file_base_name @ ''.json'')
              in bind (masscan_command scan_command target_file excluded_target_file json_file
                         (http_useragent cfg)) (\<lambda>command.
                 ret (Some command)))
           else if scan_binary = JStr ''nmap'' then
             bind (nmap_command scan_command target_file excluded_target_file pending_files_dir
                     result_file_base_name (http_useragent cfg)) (\<lambda>command.
             ret (Some command))
           else
             bind (log Error ''Invalid scan binary specified: {scan_binary}'') (\<lambda>_.
             ret None)) (\<lambda>command.
     case command of
       None \<Rightarrow> ret ()
     | Some command \<Rightarrow>
         supervise env cfg scan_job command result_file_base_name
           pending_files_dir completed_files_dir)))))"

text \<open>The body of the \<^verbatim>\<open>try\<close> of \<^verbatim>\<open>scan_site\<close> (lines 158 to 364).\<close>

definition scan_site_try :: "environment \<Rightarrow> config \<Rightarrow> job \<Rightarrow> (unit, world) prog" where
  "scan_site_try env cfg scan_job =
     bind (lift (getitem scan_job ''id'')) (\<lambda>scan_job_id.
     bind (lift (getitem scan_job ''scan_status'')) (\<lambda>scan_status.
     bind (lift (getitem scan_job ''site_name'')) (\<lambda>site_name.
     bind (lift (getitem scan_job ''scan_binary'')) (\<lambda>scan_binary.
     bind (lift (getitem scan_job ''scan_command'')) (\<lambda>scan_command.
     bind (lift (getitem scan_job ''result_file_base_name'')) (\<lambda>result_file_base_name.
     let target_file = os_path_join (target_files_dir cfg)
                         (py_str result_file_base_name @ ''.targets'');
         pending_files_dir = os_path_join (scan_results_dir cfg) ''pending'';
         completed_files_dir = os_path_join (scan_results_dir cfg) ''complete'';
         cancelled_files_dir = os_path_join (scan_results_dir cfg) ''cancelled''
     in if scan_status = JStr ''pause'' \<or> scan_status = JStr ''cancel'' then
          control_request env cfg scan_job scan_status result_file_base_name
            pending_files_dir cancelled_files_dir
        else
          start_scan env cfg scan_job scan_binary scan_command result_file_base_name target_file
            pending_files_dir completed_files_dir))))))"

text \<open>
  \<^verbatim>\<open>scan_site\<close>: the \<^verbatim>\<open>try\<close> and its handler (lines 366 to 369). The handler reads
  \<^verbatim>\<open>scan_job_id\<close>, which is bound once \<^verbatim>\<open>scan_job["id"]\<close> was read.
\<close>

definition scan_site :: "environment \<Rightarrow> config \<Rightarrow> job \<Rightarrow> (unit, world) prog" where
  "scan_site env cfg scan_job =
     catch (scan_site_try env cfg scan_job)
       (\<lambda>e. if is_Exception e then
               bind (lift (case scan_job ''id'' of
                             None \<Rightarrow> Inl UnboundLocalError
                           | Some v \<Rightarrow> Inr v)) (\<lambda>scan_job_id.
               bind (log Error ''Error with scan ID {scan_job_id}.  Exception: {e}'') (\<lambda>_.
               bind (update_scan_information env cfg scan_job [(''scan_status'', JStr ''error'')])
                 (\<lambda>_.
               ret ())))
             else raise e)"

subsection \<open>Worker and Agent\<close>

text \<open>
  One round of the loop of \<^verbatim>\<open>Worker.run\<close>; \<open>None\<close> while \<^verbatim>\<open>agent.queue.get()\<close>
  waits on an empty queue.
\<close>

definition worker_round :: "environment \<Rightarrow> config \<Rightarrow> world \<Rightarrow> ((exn + unit) \<times> world) option" where
  "worker_round env cfg w =
     (case queue w of
        [] \<Rightarrow> None
      | scan_job # rest \<Rightarrow>
          Some (catch (scan_site env cfg scan_job)
                  (\<lambda>e. if is_Exception e then
                          log Error ''Failed to start scan.  Exception: {e}''
                        else raise e)
                  (w\<lparr>queue := rest\<rparr>)))"

text \<open>\<^verbatim>\<open>Agent.load_config\<close>.\<close>

definition load_config :: "environment \<Rightarrow> string \<Rightarrow> (config, world) prog" where
  "load_config env config_file w =
     (if isfile (fs w) config_file then
        bind (lift (read_text (fs w) config_file)) (\<lambda>text.
          case json_loads_config env text of
            None \<Rightarrow> raise JSONDecodeError
          | Some json_data \<Rightarrow> ret json_data) w
      else
        bind (log Error ([CHR 0x27] @ ''{config_file}' does not exist or contains no data.'')) (\<lambda>_.
        raise (SystemExit 0)) w)"

text \<open>
  The exit code of the Python process whose main module ends this way: 0 at a normal
  end, the argument of \<^verbatim>\<open>sys.exit\<close>, 1 after an exception that nothing caught.
\<close>

fun exit_code :: "exn + 'a \<Rightarrow> int" where
  "exit_code (Inr v) = 0"
| "exit_code (Inl (SystemExit n)) = n"
| "exit_code (Inl e) = 1"

text \<open>One round of the loop of \<^verbatim>\<open>Agent.go\<close> (lines 437 to 467).\<close>

fun put_jobs :: "job list \<Rightarrow> (unit, world) prog" where
  "put_jobs [] = ret ()"
| "put_jobs (scan_job # scan_jobs) =
     bind (log Info ''scan_job: {scan_job}'') (\<lambda>_.
     bind (\<lambda>w. (Inr (), w\<lparr>queue := queue w @ [scan_job]\<rparr>)) (\<lambda>_.
     put_jobs scan_jobs))"

definition go_round :: "environment \<Rightarrow> config \<Rightarrow> (unit, world) prog" where
  "go_round env cfg =
     bind (log Info
       ''Current scan processes being tracked in SCAN_PROCESS_DICT: {SCAN_PROCESS_DICT}'') (\<lambda>_.
     bind (check_for_scan_jobs env cfg) (\<lambda>scan_jobs.
       case scan_jobs of
         Some (scan_job # rest) \<Rightarrow> put_jobs (scan_job # rest)
       | _ \<Rightarrow>
           log Info
             ''No scan jobs found...checking back in {self.config_data['callback_interval_in_seconds']} seconds.''))"

subsection \<open>Auxiliary notions for the statements\<close>

text \<open>The number of messages logged at level \<open>Error\<close>.\<close>

definition error_count :: "world \<Rightarrow> nat" where
  "error_count w = length (filter (\<lambda>m. fst m = Error) (logged w))"

text \<open>The lines that \<^verbatim>\<open>scan_site\<close> reads from \<^verbatim>\<open>paused.conf\<close>; none when there is no such file.\<close>

definition paused_conf_lines :: "filesystem \<Rightarrow> string list" where
  "paused_conf_lines f =
     (if isfile f ''paused.conf'' then
        (case read_text f ''paused.conf'' of Inl e \<Rightarrow> [] | Inr paused_file \<Rightarrow> readlines paused_file)
      else [])"

subsection \<open>Example inputs\<close>

text \<open>
  An agent \<^verbatim>\<open>a1\<close> with results under \<^verbatim>\<open>/r\<close> and targets under \<^verbatim>\<open>/t\<close>, an outside
  that answers every request the same way, starts every child as process 4242 and lets
  it end with a given return code, and job 7 with the stem \<^verbatim>\<open>job7\<close>.
\<close>

definition example_config :: config where
  "example_config =
     \<lparr>master_address = ''https://master'', master_port = 443, scan_agent = ''a1'',
      api_token = ''secret'', http_useragent = ''ua'', scan_results_dir = ''/r'',
      target_files_dir = ''/t'', supported_scan_binaries = [''masscan'', ''nmap''],
      callback_interval_in_seconds = 30\<rparr>"

definition example_env :: "http_outcome \<Rightarrow> int \<Rightarrow> environment" where
  "example_env outcome rc =
     \<lparr>urlopen = (\<lambda>k r. outcome),
      json_loads_jobs = (\<lambda>text. if text = ''[]'' then Some [] else None),
      json_loads_config = (\<lambda>text. None),
      popen = (\<lambda>argv. Some 4242),
      child_exit = (\<lambda>f. (f, rc)),
      child_killed = (\<lambda>f. f),
      now = ''2020-01-01 00:00:00''\<rparr>"

definition example_files :: "(string \<times> string) list \<Rightarrow> filesystem" where
  "example_files fl =
     \<lparr>files = fl, dirs = [''/r/pending'', ''/r/complete'', ''/r/cancelled'', ''/t'']\<rparr>"

definition example_world :: "(string \<times> string) list \<Rightarrow> world" where
  "example_world fl =
     \<lparr>fs = example_files fl, scan_process_dict = Map.empty, requests = [], logged = [],
      spawned = [], killed = [], queue = []\<rparr>"

definition example_job :: "string \<Rightarrow> string \<Rightarrow> job" where
  "example_job status binary =
     [''id'' \<mapsto> JInt 7, ''scan_status'' \<mapsto> JStr status, ''site_name'' \<mapsto> JStr ''site'',
      ''scan_binary'' \<mapsto> JStr binary, ''scan_command'' \<mapsto> JStr ''-p80'',
      ''result_file_base_name'' \<mapsto> JStr ''job7'', ''targets'' \<mapsto> JStr ''10.0.0.0/24'',
      ''excluded_targets'' \<mapsto> JStr '''', ''scan_binary_process_id'' \<mapsto> JInt 4242]"

section \<open>Properties\<close>

lemmas prog_defs = bind_def ret_def raise_def lift_def catch_def log_def on_fs_def send_def

lemmas fs_defs = write_text_def can_create_def isdir_def isfile_def os_path_join_def startswith_def
  name_part_def dir_part_def dir_prefix_def read_text_def getsize_def listdir_def rename_def
  shutil_move_def move_wildcard_files_def

lemmas world_defs = popen_process_def set_process_def wait_process_def get_process_def
  pop_process_def kill_process_def getitem_def

lemmas scan_defs = scan_site_def scan_site_try_def start_scan_def supervise_def
  control_request_def kill_scan_def update_scan_information_def masscan_command_def
  nmap_command_def

lemmas example_defs = example_config_def example_env_def example_files_def example_world_def
  example_job_def

subsection \<open>Polling for jobs\<close>

lemma check_for_scan_jobs_result:
  "fst (check_for_scan_jobs env cfg w) =
     Inr (case urlopen env (length (requests w)) (scheduled_scans_request cfg) of
            Raised \<Rightarrow> None
          | Response code text \<Rightarrow> if code = 200 then json_loads_jobs env text else None)"
  by (simp add: check_for_scan_jobs_def prog_defs split: http_outcome.splits option.splits)

lemma put_jobs_returns: "fst (put_jobs js w) = Inr ()"
  by (induction js arbitrary: w) (simp_all add: prog_defs)

text \<open>
  Claim C5. \<^verbatim>\<open>check_for_scan_jobs\<close> never raises: it returns what \<^verbatim>\<open>json.loads\<close> makes
  of the text of a response with status 200, and \<^verbatim>\<open>None\<close> after any other status, after
  an exception of \<^verbatim>\<open>urlopen\<close> and after a text that does not parse. Whenever the answer
  is not a response with status 200 a message is logged at level \<open>Error\<close>. A round of the
  poll loop of \<^verbatim>\<open>Agent.go\<close> therefore ends without an exception.
\<close>

theorem check_for_scan_jobs_never_raises:
  "fst (check_for_scan_jobs env cfg w) =
     Inr (case urlopen env (length (requests w)) (scheduled_scans_request cfg) of
            Raised \<Rightarrow> None
          | Response code text \<Rightarrow> if code = 200 then json_loads_jobs env text else None)
   \<and> ((\<forall>text. urlopen env (length (requests w)) (scheduled_scans_request cfg) \<noteq> Response 200 text)
        \<longrightarrow> error_count w < error_count (snd (check_for_scan_jobs env cfg w)))
   \<and> fst (go_round env cfg w) = Inr ()"
proof (intro conjI impI)
  show "fst (check_for_scan_jobs env cfg w) =
     Inr (case urlopen env (length (requests w)) (scheduled_scans_request cfg) of
            Raised \<Rightarrow> None
          | Response code text \<Rightarrow> if code = 200 then json_loads_jobs env text else None)"
    by (rule check_for_scan_jobs_result)
next
  assume "\<forall>text. urlopen env (length (requests w)) (scheduled_scans_request cfg) \<noteq> Response 200 text"
  then show "error_count w < error_count (snd (check_for_scan_jobs env cfg w))"
    by (cases "urlopen env (length (requests w)) (scheduled_scans_request cfg)")
       (auto simp: check_for_scan_jobs_def prog_defs error_count_def)
next
  obtain r w' where c:
    "check_for_scan_jobs env cfg
       (snd (log Info
          ''Current scan processes being tracked in SCAN_PROCESS_DICT: {SCAN_PROCESS_DICT}'' w))
     = (Inr r, w')"
    using check_for_scan_jobs_result [of env cfg] by (metis prod.collapse)
  show "fst (go_round env cfg w) = Inr ()"
    using c
    by (simp add: go_round_def bind_def log_def put_jobs_returns split: option.splits list.splits)
qed

text \<open>
  The control plane answers 500: the poll returns \<^verbatim>\<open>None\<close>, one more error is logged,
  and the round of the poll loop ends normally.
\<close>

theorem check_for_scan_jobs_never_raises_witness:
  "urlopen (example_env (Response 500 ''down'') 0) 0 (scheduled_scans_request example_config)
     = Response 500 ''down''
   \<and> fst (check_for_scan_jobs (example_env (Response 500 ''down'') 0) example_config
            (example_world [])) = Inr None
   \<and> error_count (example_world []) <
       error_count (snd (check_for_scan_jobs (example_env (Response 500 ''down'') 0)
                           example_config (example_world [])))
   \<and> fst (go_round (example_env (Response 500 ''down'') 0) example_config (example_world []))
       = Inr ()"
  using check_for_scan_jobs_never_raises
          [of "example_env (Response 500 ''down'') 0" example_config "example_world []"]
  by (simp add: example_env_def example_world_def)

subsection \<open>Updating a scan\<close>

text \<open>
  Claim C4. \<^verbatim>\<open>update_scan_information\<close> has no \<^verbatim>\<open>try\<close>: when \<^verbatim>\<open>urlopen\<close> raises, the
  call raises into \<^verbatim>\<open>scan_site\<close>. With a control plane that cannot be reached, the
  update of job 7 raises \<^verbatim>\<open>URLError\<close>; \<^verbatim>\<open>scan_site\<close> has spawned the child by then, its
  handler calls the update again and that exception leaves \<^verbatim>\<open>scan_site\<close>, to be logged
  by the worker.
\<close>

theorem update_scan_information_raises:
  "fst (update_scan_information (example_env Raised 0) example_config
          (example_job ''pending'' ''masscan'') [(''scan_status'', JStr ''started'')]
          (example_world [])) = Inl URLError
   \<and> fst (scan_site (example_env Raised 0) example_config (example_job ''pending'' ''masscan'')
            (example_world [])) = Inl URLError
   \<and> map_option fst
       (worker_round (example_env Raised 0) example_config
          ((example_world [])\<lparr>queue := [example_job ''pending'' ''masscan'']\<rparr>)) = Some (Inr ())
   \<and> map_option (\<lambda>r. last (logged (snd r)))
       (worker_round (example_env Raised 0) example_config
          ((example_world [])\<lparr>queue := [example_job ''pending'' ''masscan'']\<rparr>))
       = Some (Error, ''Failed to start scan.  Exception: {e}'')"
  by (simp add: worker_round_def scan_defs prog_defs example_defs fs_defs world_defs)

subsection \<open>Loading the configuration\<close>

text \<open>
  Claim C6. With no configuration file, \<^verbatim>\<open>load_config\<close> logs an error and calls
  \<^verbatim>\<open>sys.exit(0)\<close>: the process ends with exit code 0.
\<close>

theorem load_config_missing_file_exit_code:
  "isfile (fs (example_world [])) ''agent_config.json'' = False
   \<and> fst (load_config (example_env Raised 0) ''agent_config.json'' (example_world []))
       = Inl (SystemExit 0)
   \<and> exit_code (fst (load_config (example_env Raised 0) ''agent_config.json'' (example_world [])))
       = 0"
  by (simp add: load_config_def prog_defs example_defs fs_defs)

subsection \<open>Requests to pause or cancel\<close>

text \<open>
  Claim C10. A request to pause or cancel names a process that is in
  \<^verbatim>\<open>SCAN_PROCESS_DICT\<close> and whose \<^verbatim>\<open>args[0]\<close> is not in \<^verbatim>\<open>supported_scan_binaries\<close>.
  Then \<^verbatim>\<open>scan_site\<close> kills nothing, leaves the dictionary and the files as they are,
  and sends one request: the handler's \<^verbatim>\<open>scan_status\<close> \<^verbatim>\<open>error\<close>
  (\<^verbatim>\<open>updated_scan_status\<close> was never bound).
\<close>

theorem control_unsupported_binary:
  assumes "scan_job ''id'' = Some job_id"
      and "scan_job ''scan_status'' = Some status"
      and "status = JStr ''pause'' \<or> status = JStr ''cancel''"
      and "scan_job ''scan_binary_process_id'' = Some (JInt n)"
      and "scan_process_dict w n = Some p"
      and "args p = argv0 # rest"
      and "argv0 \<notin> set (supported_scan_binaries cfg)"
  shows "killed (snd (scan_site env cfg scan_job w)) = killed w
       \<and> scan_process_dict (snd (scan_site env cfg scan_job w)) = scan_process_dict w
       \<and> fs (snd (scan_site env cfg scan_job w)) = fs w
       \<and> spawned (snd (scan_site env cfg scan_job w)) = spawned w
       \<and> requests (snd (scan_site env cfg scan_job w)) =
           requests w @ [patch_request cfg job_id [(''scan_status'', JStr ''error'')]]"
  using assms
  by (cases "urlopen env (length (requests w))
               (patch_request cfg job_id [(''scan_status'', JStr ''error'')])")
     (auto simp: scan_site_def scan_site_try_def control_request_def kill_scan_def
        update_scan_information_def prog_defs world_defs split: option.splits)

text \<open>
  Process 4242 runs \<^verbatim>\<open>zmap\<close>, which the configuration does not support: a request to
  pause it kills nothing, keeps 4242 in the dictionary and posts \<^verbatim>\<open>error\<close>.
\<close>

theorem control_unsupported_binary_witness:
  "killed (snd (scan_site (example_env (Response 200 []) 0) example_config
                  (example_job ''pause'' ''zmap'')
                  ((example_world [])\<lparr>scan_process_dict :=
                      [4242 \<mapsto> \<lparr>pid = 4242, args = [''zmap'', ''-p80'']\<rparr>]\<rparr>))) = []
   \<and> scan_process_dict
        (snd (scan_site (example_env (Response 200 []) 0) example_config
                (example_job ''pause'' ''zmap'')
                ((example_world [])\<lparr>scan_process_dict :=
                    [4242 \<mapsto> \<lparr>pid = 4242, args = [''zmap'', ''-p80'']\<rparr>]\<rparr>))) 4242
       = Some \<lparr>pid = 4242, args = [''zmap'', ''-p80'']\<rparr>
   \<and> map body
        (requests (snd (scan_site (example_env (Response 200 []) 0) example_config
                          (example_job ''pause'' ''zmap'')
                          ((example_world [])\<lparr>scan_process_dict :=
                              [4242 \<mapsto> \<lparr>pid = 4242, args = [''zmap'', ''-p80'']\<rparr>]\<rparr>))))
       = [Some [(''scan_status'', JStr ''error'')]]"
  using control_unsupported_binary
          [of "example_job ''pause'' ''zmap''" "JInt 7" "JStr ''pause''" 4242
              "(example_world [])\<lparr>scan_process_dict :=
                 [4242 \<mapsto> \<lparr>pid = 4242, args = [''zmap'', ''-p80'']\<rparr>]\<rparr>"
              "\<lparr>pid = 4242, args = [''zmap'', ''-p80'']\<rparr>" "''zmap''" "[''-p80'']"
              example_config "example_env (Response 200 []) 0"]
  by (simp add: example_job_def example_world_def example_config_def patch_request_def)

text \<open>
  Claim C2. A request to pause process 4242 arrives when \<^verbatim>\<open>SCAN_PROCESS_DICT\<close> is empty.
  \<^verbatim>\<open>scan_site\<close> logs that the process is not running, then reads
  \<^verbatim>\<open>updated_scan_status\<close>, which is not bound, and its handler posts \<^verbatim>\<open>scan_status\<close>
  \<^verbatim>\<open>error\<close>.
\<close>

theorem control_unknown_pid_posts_error:
  "scan_process_dict (example_world []) 4242 = None
   \<and> map body
        (requests (snd (scan_site (example_env (Response 200 []) 0) example_config
                          (example_job ''pause'' ''masscan'') (example_world []))))
       = [Some [(''scan_status'', JStr ''error'')]]
   \<and> map fst
        (logged (snd (scan_site (example_env (Response 200 []) 0) example_config
                        (example_job ''pause'' ''masscan'') (example_world []))))
       = [Info, Error, Error, Info, Info]
   \<and> logged (snd (scan_site (example_env (Response 200 []) 0) example_config
                     (example_job ''pause'' ''masscan'') (example_world []))) ! 1
       = (Error, ''Process ID {scan_binary_process_id} is not running.'')"
  by (simp add: scan_defs prog_defs example_defs fs_defs world_defs patch_request_def)

subsection \<open>Starting a scan\<close>







subsection \<open>Supervising the child\<close>




subsection \<open>The command of a masscan job\<close>

lemma split_from_not_empty: "split_from sep k s \<noteq> []"
  by (induction sep k s rule: split_from.induct) (auto split: list.splits)

lemma split_from_two_pieces:
  assumes "sep \<noteq> []"
  shows "\<exists>x y ys. split_from sep 0 (a @ sep @ b) = x # y # ys"
proof (induction a)
  case Nil
  obtain c sep' where sep: "sep = c # sep'"
    using assms by (cases sep) auto
  obtain y ys where "split_from sep (length sep - 1) (sep' @ b) = y # ys"
    using split_from_not_empty [of sep "length sep - 1" "sep' @ b"]
    by (cases "split_from sep (length sep - 1) (sep' @ b)") auto
  then show ?case
    by (simp add: sep startswith_def)
next
  case (Cons c a)
  then obtain x y ys where ih: "split_from sep 0 (a @ sep @ b) = x # y # ys"
    by blast
  obtain z zs where ne: "split_from sep (length sep - 1) (a @ sep @ b) = z # zs"
    using split_from_not_empty [of sep "length sep - 1" "a @ sep @ b"]
    by (cases "split_from sep (length sep - 1) (a @ sep @ b)") auto
  show ?case
    using ne by (simp add: ih)
qed

lemma second_split_sep:
  "second (split_sep (a @ '' = '' @ b) '' = '') = Inr (split_sep (a @ '' = '' @ b) '' = '' ! 1)"
proof -
  obtain x y ys where "split_from '' = '' 0 (a @ '' = '' @ b) = x # y # ys"
    using split_from_two_pieces [of "'' = ''" a b] by auto
  then show ?thesis
    by (simp add: split_sep_def)
qed

lemma paused_output_filename_value:
  assumes "\<forall>line \<in> set ls. startswith line ''output-filename'' \<longrightarrow> (\<exists>a b. line = a @ '' = '' @ b)"
  shows "paused_output_filename cur ls =
           Inr (if filter (\<lambda>line. startswith line ''output-filename'') ls = [] then cur
                else Some (strip (split_sep
                        (last (filter (\<lambda>line. startswith line ''output-filename'') ls))
                        '' = '' ! 1)))"
  using assms
proof (induction ls arbitrary: cur)
  case Nil
  then show ?case by simp
next
  case (Cons line ls)
  show ?case
  proof (cases "startswith line ''output-filename''")
    case True
    with Cons.prems obtain a b where "line = a @ '' = '' @ b"
      by auto
    then have "second (split_sep line '' = '') = Inr (split_sep line '' = '' ! 1)"
      using second_split_sep [of a b] by simp
    with True Cons show ?thesis
      by simp
  next
    case False
    with Cons show ?thesis
      by simp
  qed
qed

text \<open>
  Claim C7, as the code has it. Every line of \<^verbatim>\<open>paused.conf\<close> that starts with
  \<^verbatim>\<open>output-filename\<close> holds the separator \<^verbatim>\<open>" = "\<close> (there are no lines when there is
  no such file). The value of \<^verbatim>\<open>output-filename\<close> is read from the last such line: the
  piece after its first separator, up to the next one, with the whitespace at both ends
  removed. When there is such a line and that value is the path of the JSON output of
  this job, the command is \<^verbatim>\<open>masscan --resume paused.conf\<close>. Otherwise it is
  \<^verbatim>\<open>masscan\<close>, the \<^verbatim>\<open>scan_command\<close> of the job, \<^verbatim>\<open>-iL\<close> with the targets file,
  \<^verbatim>\<open>-oJ\<close> with the path of the JSON output, \<^verbatim>\<open>--http-user-agent\<close> with the user
  agent and, when there is a file of excluded targets, \<^verbatim>\<open>--excludefile\<close> with it.
\<close>

theorem masscan_command_resume_or_fresh:
  assumes "\<forall>line \<in> set (paused_conf_lines (fs w)).
             startswith line ''output-filename'' \<longrightarrow> (\<exists>a b. line = a @ '' = '' @ b)"
  shows "fst (masscan_command scan_command target_file excluded_target_file json_file ua w) =
           Inr (if filter (\<lambda>line. startswith line ''output-filename'') (paused_conf_lines (fs w))
                     \<noteq> []
                   \<and> strip (split_sep
                        (last (filter (\<lambda>line. startswith line ''output-filename'')
                                 (paused_conf_lines (fs w))))
                        '' = '' ! 1) = json_file
                then ''masscan --resume paused.conf''
                else ''masscan '' @ py_str scan_command @ '' -iL '' @ target_file @ '' -oJ ''
                       @ json_file @ '' --http-user-agent '' @ ua
                       @ (case excluded_target_file of
                            None \<Rightarrow> []
                          | Some f \<Rightarrow> if f \<noteq> [] then '' --excludefile '' @ f else []))"
proof (cases "map_of (files (fs w)) ''paused.conf''")
  case None
  then have "paused_conf_lines (fs w) = []"
    by (simp add: paused_conf_lines_def isfile_def)
  with None show ?thesis
    by (cases excluded_target_file)
       (simp_all add: masscan_command_def build_masscan_command_def prog_defs isfile_def)
next
  case (Some c)
  then have ls: "paused_conf_lines (fs w) = readlines (universal_newlines c)"
    by (simp add: paused_conf_lines_def isfile_def read_text_def)
  have v: "paused_output_filename None (readlines (universal_newlines c)) =
             Inr (if filter (\<lambda>line. startswith line ''output-filename'')
                       (readlines (universal_newlines c)) = [] then None
                  else Some (strip (split_sep
                          (last (filter (\<lambda>line. startswith line ''output-filename'')
                                   (readlines (universal_newlines c))))
                          '' = '' ! 1)))"
    using paused_output_filename_value [OF assms, of None] unfolding ls .
  show ?thesis
    unfolding ls using Some v
    by (cases excluded_target_file)
       (simp_all add: masscan_command_def build_masscan_command_def prog_defs isfile_def
          read_text_def Let_def)
qed

text \<open>
  Three files \<^verbatim>\<open>paused.conf\<close> for job 7. In the first the last line
  \<^verbatim>\<open>output-filename\<close> names the JSON output of the job, with a blank after it, and an
  earlier one names another file: the command is \<^verbatim>\<open>masscan --resume paused.conf\<close>,
  whatever the \<^verbatim>\<open>scan_command\<close> of the job. In the second the two lines are in the
  other order, and the command is the fresh one, here with a file of excluded targets.
  With no \<^verbatim>\<open>paused.conf\<close> the command is the fresh one too.
\<close>

theorem masscan_command_resume_or_fresh_witness:
  "paused_conf_lines
     (fs (example_world
            [(''paused.conf'',
              ''output-filename = /r/pending/old.json\<newline>rate = 1000\<newline>output-filename = /r/pending/job7.json \<newline>'')]))
     = [''output-filename = /r/pending/old.json\<newline>'', ''rate = 1000\<newline>'',
        ''output-filename = /r/pending/job7.json \<newline>'']
   \<and> fst (masscan_command (JStr ''-p80'') ''/t/job7.targets'' None ''/r/pending/job7.json'' ''ua''
            (example_world
               [(''paused.conf'',
                 ''output-filename = /r/pending/old.json\<newline>rate = 1000\<newline>output-filename = /r/pending/job7.json \<newline>'')]))
       = Inr ''masscan --resume paused.conf''
   \<and> split_ws ''masscan --resume paused.conf'' = [''masscan'', ''--resume'', ''paused.conf'']
   \<and> fst (masscan_command (JStr ''-p80'') ''/t/job7.targets'' (Some ''/t/job7.excluded_targets'')
            ''/r/pending/job7.json'' ''ua''
            (example_world
               [(''paused.conf'',
                 ''output-filename = /r/pending/job7.json\<newline>output-filename = /r/pending/old.json\<newline>'')]))
       = Inr ''masscan -p80 -iL /t/job7.targets -oJ /r/pending/job7.json --http-user-agent ua --excludefile /t/job7.excluded_targets''
   \<and> fst (masscan_command (JStr ''-p80'') ''/t/job7.targets'' None ''/r/pending/job7.json'' ''ua''
            (example_world []))
       = Inr ''masscan -p80 -iL /t/job7.targets -oJ /r/pending/job7.json --http-user-agent ua''"
proof -
  let ?w1 = "example_world
               [(''paused.conf'',
                 ''output-filename = /r/pending/old.json\<newline>rate = 1000\<newline>output-filename = /r/pending/job7.json \<newline>'')]"
  let ?w2 = "example_world
               [(''paused.conf'',
                 ''output-filename = /r/pending/job7.json\<newline>output-filename = /r/pending/old.json\<newline>'')]"
  let ?w3 = "example_world []"
  have e1: "\<exists>a b. ''output-filename = /r/pending/old.json\<newline>'' = a @ '' = '' @ b"
    by (rule exI [of _ "''output-filename''"], rule exI [of _ "''/r/pending/old.json\<newline>''"])
       simp
  have e2: "\<exists>a b. ''output-filename = /r/pending/job7.json \<newline>'' = a @ '' = '' @ b"
    by (rule exI [of _ "''output-filename''"], rule exI [of _ "''/r/pending/job7.json \<newline>''"])
       simp
  have e3: "\<exists>a b. ''output-filename = /r/pending/job7.json\<newline>'' = a @ '' = '' @ b"
    by (rule exI [of _ "''output-filename''"], rule exI [of _ "''/r/pending/job7.json\<newline>''"])
       simp
  have l1: "paused_conf_lines (fs ?w1) =
              [''output-filename = /r/pending/old.json\<newline>'', ''rate = 1000\<newline>'',
               ''output-filename = /r/pending/job7.json \<newline>'']"
    by (simp add: paused_conf_lines_def example_defs fs_defs readlines_def)
  have l2: "paused_conf_lines (fs ?w2) =
              [''output-filename = /r/pending/job7.json\<newline>'',
               ''output-filename = /r/pending/old.json\<newline>'']"
    by (simp add: paused_conf_lines_def example_defs fs_defs readlines_def)
  have l3: "paused_conf_lines (fs ?w3) = []"
    by (simp add: paused_conf_lines_def example_defs fs_defs)
  have h1: "\<forall>line \<in> set (paused_conf_lines (fs ?w1)).
              startswith line ''output-filename'' \<longrightarrow> (\<exists>a b. line = a @ '' = '' @ b)"
    unfolding l1 using e1 e2 by (simp add: startswith_def)
  have h2: "\<forall>line \<in> set (paused_conf_lines (fs ?w2)).
              startswith line ''output-filename'' \<longrightarrow> (\<exists>a b. line = a @ '' = '' @ b)"
    unfolding l2 using e1 e3 by (simp add: startswith_def)
  have h3: "\<forall>line \<in> set (paused_conf_lines (fs ?w3)).
              startswith line ''output-filename'' \<longrightarrow> (\<exists>a b. line = a @ '' = '' @ b)"
    unfolding l3 by simp
  have c1: "fst (masscan_command (JStr ''-p80'') ''/t/job7.targets'' None ''/r/pending/job7.json''
                   ''ua'' ?w1) = Inr ''masscan --resume paused.conf''"
    using masscan_command_resume_or_fresh
            [OF h1, of "JStr ''-p80''" "''/t/job7.targets''" None "''/r/pending/job7.json''" "''ua''"]
    unfolding l1
    by (simp add: startswith_def split_sep_def strip_def is_space_def)
  have c2: "fst (masscan_command (JStr ''-p80'') ''/t/job7.targets''
                   (Some ''/t/job7.excluded_targets'') ''/r/pending/job7.json'' ''ua'' ?w2)
              = Inr ''masscan -p80 -iL /t/job7.targets -oJ /r/pending/job7.json --http-user-agent ua --excludefile /t/job7.excluded_targets''"
    using masscan_command_resume_or_fresh
            [OF h2, of "JStr ''-p80''" "''/t/job7.targets''" "Some ''/t/job7.excluded_targets''"
                "''/r/pending/job7.json''" "''ua''"]
    unfolding l2
    by (simp add: startswith_def split_sep_def strip_def is_space_def)
  have c3: "fst (masscan_command (JStr ''-p80'') ''/t/job7.targets'' None ''/r/pending/job7.json''
                   ''ua'' ?w3)
              = Inr ''masscan -p80 -iL /t/job7.targets -oJ /r/pending/job7.json --http-user-agent ua''"
    using masscan_command_resume_or_fresh
            [OF h3, of "JStr ''-p80''" "''/t/job7.targets''" None "''/r/pending/job7.json''" "''ua''"]
    unfolding l3
    by simp
  have s: "split_ws ''masscan --resume paused.conf'' = [''masscan'', ''--resume'', ''paused.conf'']"
    by (simp add: split_ws_def is_space_def)
  from l1 c1 s c2 c3 show ?thesis
    by blast
qed

text \<open>
  Claim C7 as stated fails: \<^verbatim>\<open>paused.conf\<close> exists and its line \<^verbatim>\<open>output-filename\<close>
  has no separator; reading its value raises \<^verbatim>\<open>IndexError\<close>, no command is built and
  \<^verbatim>\<open>scan_site\<close> spawns nothing.
\<close>

theorem masscan_command_counterexample:
  "isfile (fs (example_world [(''paused.conf'', ''output-filename'' @ [CHR 0x0A])])) ''paused.conf''
   \<and> fst (masscan_command (JStr ''-p80'') ''/t/job7.targets'' None ''/r/pending/job7.json'' ''ua''
            (example_world [(''paused.conf'', ''output-filename'' @ [CHR 0x0A])]))
       = Inl IndexError
   \<and> spawned (snd (scan_site (example_env (Response 200 []) 0) example_config
                      (example_job ''pending'' ''masscan'')
                      (example_world [(''paused.conf'', ''output-filename'' @ [CHR 0x0A])]))) = []"
  by (simp add: scan_defs prog_defs example_defs fs_defs world_defs readlines_def split_sep_def)

subsection \<open>The command of an nmap job\<close>



subsection \<open>Moving the files of a job\<close>

text \<open>
  Claim C8. The stem of a job is \<^verbatim>\<open>job[1]\<close>, so its files are moved with the pattern
  \<^verbatim>\<open>job[1]*\<close>. \<^verbatim>\<open>fnmatch\<close> reads \<^verbatim>\<open>[1]\<close> as a class: the pattern matches
  \<^verbatim>\<open>job1.json\<close> and not \<^verbatim>\<open>job[1].json\<close>, and \<^verbatim>\<open>move_wildcard_files\<close> moves the file
  of another job and leaves the file of this one.
\<close>

theorem move_wildcard_files_bracket_class:
  "fnmatch ''job1.json'' ''job[1]*'' = True
   \<and> fnmatch ''job[1].json'' ''job[1]*'' = False
   \<and> fst (move_wildcard_files ''job[1]*'' ''/r/pending'' ''/r/complete''
            (example_files [(''/r/pending/job1.json'', ''a''), (''/r/pending/job[1].json'', ''b'')]))
       = Inr ()
   \<and> files (snd (move_wildcard_files ''job[1]*'' ''/r/pending'' ''/r/complete''
                    (example_files
                       [(''/r/pending/job1.json'', ''a''), (''/r/pending/job[1].json'', ''b'')])))
       = [(''/r/pending/job[1].json'', ''b''), (''/r/complete/job1.json'', ''a'')]"
  by (simp add: prog_defs example_defs fs_defs fnmatch_def parse_pattern_def class_end_def
        class_token_def)

end
